theory Spec2Isabelle
  imports Main
begin

section \<open>Python text and the built-ins the service relies on\<close>

text \<open>
  A Python \<open>str\<close> is a sequence of Unicode code points; it is modelled as a list of
  natural numbers, one per code point, so that \<open>length\<close>, slicing and prefix tests count
  what Python counts. The literals of \<open>app.py\<close> are written as their code points.
\<close>

type_synonym pystr = "nat list"

text \<open>Values that reach an untyped Python parameter at run time.\<close>

datatype pyval = PyStr pystr | PyInt int | PyNone

text \<open>The exceptions (all subclasses of \<open>Exception\<close>) that the modelled code can raise.\<close>

datatype pyexn = ValueError | AttributeError | IndexError | ProviderError

definition ascii :: "string \<Rightarrow> pystr" where
  "ascii s = map of_char s"

text \<open>
  \<open>str.isspace\<close> for one code point: the characters that \<open>str.strip()\<close> removes
  (bidirectional type WS, B or S, or category Zs).
\<close>

definition isspace :: "nat \<Rightarrow> bool" where
  "isspace c =
     ((0x9 \<le> c \<and> c \<le> 0xD) \<or> (0x1C \<le> c \<and> c \<le> 0x20) \<or> c = 0x85 \<or> c = 0xA0 \<or>
      c = 0x1680 \<or> (0x2000 \<le> c \<and> c \<le> 0x200A) \<or> c = 0x2028 \<or> c = 0x2029 \<or>
      c = 0x202F \<or> c = 0x205F \<or> c = 0x3000)"

definition strip :: "pystr \<Rightarrow> pystr" where
  "strip s = rev (dropWhile isspace (rev (dropWhile isspace s)))"

text \<open>\<open>s.split('\n')\<close>: always at least one piece; only U+000A separates.\<close>

fun split_nl :: "pystr \<Rightarrow> pystr list" where
  "split_nl [] = [[]]"
| "split_nl (c # cs) =
     (if c = 0xA then [] # split_nl cs
      else (case split_nl cs of
              [] \<Rightarrow> [[c]]
            | l # ls \<Rightarrow> (c # l) # ls))"

definition startswith :: "pystr \<Rightarrow> pystr \<Rightarrow> bool" where
  "startswith s p = (take (length p) s = p)"

text \<open>\<open>sub in s\<close>: \<open>sub\<close> occurs in \<open>s\<close> as a contiguous run.\<close>

fun contains :: "pystr \<Rightarrow> pystr \<Rightarrow> bool" where
  "contains sub [] = (sub = [])"
| "contains sub (c # cs) = (startswith (c # cs) sub \<or> contains sub cs)"

text \<open>
  \<open>s.replace(old, new)\<close>: every non-overlapping occurrence of \<open>old\<close>, found from the
  left, is replaced. \<open>replace_from\<close> is the scan for a non-empty \<open>old\<close>.
\<close>

function replace_from :: "pystr \<Rightarrow> pystr \<Rightarrow> pystr \<Rightarrow> pystr" where
  "replace_from old new [] = []"
| "replace_from old new (c # cs) =
     (if old \<noteq> [] \<and> startswith (c # cs) old
      then new @ replace_from old new (drop (length old) (c # cs))
      else c # replace_from old new cs)"
  by pat_completeness auto
termination
  by (relation "measure (\<lambda>(old, new, s). length s)") auto

definition replace :: "pystr \<Rightarrow> pystr \<Rightarrow> pystr \<Rightarrow> pystr" where
  "replace old new s =
     (if old = [] then new @ concat (map (\<lambda>c. c # new) s) else replace_from old new s)"

subsection \<open>\<open>int(text)\<close>\<close>

text \<open>
  The code points with a decimal digit value start runs of ten (zero to nine) at the
  following code points (Unicode 14, the table of CPython 3.11). \<open>int\<close> maps each to its
  ASCII digit before parsing.
\<close>

definition decimal_zeros :: "nat list" where
  "decimal_zeros =
     [0x30, 0x660, 0x6F0, 0x7C0, 0x966, 0x9E6, 0xA66, 0xAE6, 0xB66, 0xBE6, 0xC66, 0xCE6,
      0xD66, 0xDE6, 0xE50, 0xED0, 0xF20, 0x1040, 0x1090, 0x17E0, 0x1810, 0x1946, 0x19D0,
      0x1A80, 0x1A90, 0x1B50, 0x1BB0, 0x1C40, 0x1C50, 0xA620, 0xA8D0, 0xA900, 0xA9D0,
      0xA9F0, 0xAA50, 0xABF0, 0xFF10, 0x104A0, 0x10D30, 0x11066, 0x110F0, 0x11136,
      0x111D0, 0x112F0, 0x11450, 0x114D0, 0x11650, 0x116C0, 0x11730, 0x118E0, 0x11950,
      0x11C50, 0x11D50, 0x11DA0, 0x16A60, 0x16AC0, 0x16B50, 0x1D7CE, 0x1D7D8, 0x1D7E2,
      0x1D7EC, 0x1D7F6, 0x1E140, 0x1E2F0, 0x1E950, 0x1FBF0]"

definition digit_val :: "nat \<Rightarrow> nat option" where
  "digit_val c =
     (case find (\<lambda>z. z \<le> c \<and> c < z + 10) decimal_zeros of
        None \<Rightarrow> None
      | Some z \<Rightarrow> Some (c - z))"

text \<open>
  The digit part of a base-10 literal: digits, with single underscores allowed between
  two digits only. \<open>prev\<close> tells whether the previous character was a digit. The result
  is the value and the number of digit characters.
\<close>

fun scan_digits :: "int \<Rightarrow> nat \<Rightarrow> bool \<Rightarrow> pystr \<Rightarrow> (int \<times> nat) option" where
  "scan_digits acc n prev [] = (if prev then Some (acc, n) else None)"
| "scan_digits acc n prev (c # cs) =
     (if c = 0x5F then (if prev then scan_digits acc n False cs else None)
      else (case digit_val c of
              None \<Rightarrow> None
            | Some d \<Rightarrow> scan_digits (10 * acc + int d) (Suc n) True cs))"

text \<open>
  \<open>int(s)\<close> for a text \<open>s\<close> that has no white space at either end (the service only
  converts stripped text, so the skipping of surrounding white space that \<open>int\<close> does
  itself has nothing to skip). An optional sign is followed by the digit part; anything
  else raises \<open>ValueError\<close>, and so does a literal with more digit characters than
  \<open>lim\<close>, the interpreter's \<open>sys.get_int_max_str_digits()\<close> (4300 unless configured;
  0 switches the limit off).
\<close>

definition py_int :: "nat \<Rightarrow> pystr \<Rightarrow> pyexn + int" where
  "py_int lim s =
     (let (neg, body) =
            (case s of
               [] \<Rightarrow> (False, [])
             | c # cs \<Rightarrow> if c = 0x2B then (False, cs)
                        else if c = 0x2D then (True, cs)
                        else (False, s))
      in case scan_digits 0 0 False body of
           None \<Rightarrow> Inl ValueError
         | Some (v, n) \<Rightarrow>
             if 0 < lim \<and> lim < n then Inl ValueError
             else Inr (if neg then - v else v))"

section \<open>Data model\<close>

text \<open>The quiz dictionary that both the parser and the fallback catalog return.\<close>

record quiz =
  question :: pystr
  options :: "pystr list"
  correct_answer :: int
  explanation :: pystr
  points :: int

record QuizRequest =
  spot_name :: pystr
  spot_description :: pystr
  difficulty :: pystr

record QuizResponse =
  success :: bool
  quiz :: "quiz option"
  generated_by :: pystr

section \<open>Points lookup\<close>

definition key_elementary :: pystr where "key_elementary = [0x5C0F, 0x5B66, 0x751F]"
definition key_middle :: pystr where "key_middle = [0x4E2D, 0x5B66, 0x751F]"
definition key_high :: pystr where "key_high = [0x9AD8, 0x6821, 0x751F]"

text \<open>The dictionary literal \<open>{"shougakusei": 10, "chuugakusei": 15, "koukousei": 20}\<close>.\<close>

definition points_table :: "(pyval \<times> int) list" where
  "points_table = [(PyStr key_elementary, 10), (PyStr key_middle, 15), (PyStr key_high, 20)]"

definition dict_get :: "('k \<times> 'v) list \<Rightarrow> 'k \<Rightarrow> 'v \<Rightarrow> 'v" where
  "dict_get d k dflt = (case map_of d k of None \<Rightarrow> dflt | Some v \<Rightarrow> v)"

definition difficulty_points :: "pyval \<Rightarrow> int" where
  "difficulty_points d = dict_get points_table d 15"

section \<open>Fallback catalog\<close>

definition token_daibutsu :: pystr where "token_daibutsu = [0x5927, 0x4ECF]"
definition token_hachimangu :: pystr where "token_hachimangu = [0x516B, 0x5E61, 0x5BAE]"

definition q_suffix_generic :: pystr where
  "q_suffix_generic =
     [0x306B, 0x3064, 0x3044, 0x3066, 0x6B63, 0x3057, 0x3044, 0x3082, 0x306E, 0x306F,
      0x3069, 0x308C, 0x3067, 0x3057, 0x3087, 0x3046, 0xFF1F]"

definition q_suffix_shrine :: pystr where
  "q_suffix_shrine =
     [0x3068, 0x95A2, 0x4FC2, 0x304C, 0x6DF1, 0x3044, 0x4EBA, 0x7269, 0x306F, 0x8AB0,
      0x3067, 0x3057, 0x3087, 0x3046, 0xFF1F]"

definition e_suffix_daibutsu :: pystr where
  "e_suffix_daibutsu =
     [0x306F, 0x938C, 0x5009, 0x6642, 0x4EE3, 0x306B, 0x5EFA, 0x7ACB, 0x3055, 0x308C,
      0x305F, 0x3001, 0x65E5, 0x672C, 0x3092, 0x4EE3, 0x8868, 0x3059, 0x308B, 0x6587,
      0x5316, 0x8CA1, 0x3067, 0x3059, 0x3002]"

definition e_suffix_shrine :: pystr where
  "e_suffix_shrine =
     [0x306F, 0x6E90, 0x983C, 0x671D, 0x306B, 0x3088, 0x3063, 0x3066, 0x938C, 0x5009,
      0x5E55, 0x5E9C, 0x306E, 0x5B88, 0x8B77, 0x795E, 0x3068, 0x3057, 0x3066, 0x5D07,
      0x656C, 0x3055, 0x308C, 0x307E, 0x3057, 0x305F, 0x3002]"

definition e_suffix_generic :: pystr where
  "e_suffix_generic =
     [0x306F, 0x9577, 0x3044, 0x6B74, 0x53F2, 0x3092, 0x6301, 0x3064, 0x91CD, 0x8981,
      0x306A, 0x6587, 0x5316, 0x907A, 0x7523, 0x3067, 0x3059, 0x3002]"

definition name_yoritomo :: pystr where "name_yoritomo = [0x6E90, 0x983C, 0x671D]"

definition options_daibutsu :: "pystr list" where
  "options_daibutsu =
     [[0x31, 0x33, 0x4E16, 0x7D00, 0x306B, 0x5EFA, 0x7ACB, 0x3055, 0x308C, 0x305F, 0x56FD,
       0x5B9D, 0x3067, 0x3042, 0x308B],
      [0x6700, 0x8FD1, 0x4F5C, 0x3089, 0x308C, 0x305F, 0x30EC, 0x30D7, 0x30EA, 0x30AB,
       0x3067, 0x3042, 0x308B],
      [0x6D77, 0x5916, 0x304B, 0x3089, 0x8F38, 0x5165, 0x3055, 0x308C, 0x305F, 0x4ECF,
       0x50CF, 0x3067, 0x3042, 0x308B],
      [0x5B9F, 0x969B, 0x306B, 0x306F, 0x5B58, 0x5728, 0x3057, 0x306A, 0x3044, 0x4F1D,
       0x8AAC, 0x4E0A, 0x306E, 0x4ECF, 0x50CF, 0x3067, 0x3042, 0x308B]]"

definition options_shrine :: "pystr list" where
  "options_shrine =
     [name_yoritomo,
      [0x7E54, 0x7530, 0x4FE1, 0x9577],
      [0x8C4A, 0x81E3, 0x79C0, 0x5409],
      [0x5FB3, 0x5DDD, 0x5BB6, 0x5EB7]]"

definition options_generic :: "pystr list" where
  "options_generic =
     [[0x6B74, 0x53F2, 0x7684, 0x306B, 0x91CD, 0x8981, 0x306A, 0x5834, 0x6240, 0x3067,
       0x3042, 0x308B],
      [0x6700, 0x8FD1, 0x5EFA, 0x8A2D, 0x3055, 0x308C, 0x305F, 0x89B3, 0x5149, 0x5730,
       0x3067, 0x3042, 0x308B],
      [0x67B6, 0x7A7A, 0x306E, 0x5834, 0x6240, 0x3067, 0x3042, 0x308B],
      [0x6D77, 0x5916, 0x306B, 0x3042, 0x308B, 0x5834, 0x6240, 0x3067, 0x3042, 0x308B]]"

text \<open>
  \<open>_get_fallback_quiz(spot_name, difficulty)\<close>. The difficulty is whatever the caller
  passes as dictionary key: the request's label, or the integer 15 from the parser's
  handler.
\<close>

definition get_fallback_quiz :: "pystr \<Rightarrow> pyval \<Rightarrow> quiz" where
  "get_fallback_quiz name diff =
     (let pts = difficulty_points diff
      in if contains token_daibutsu name then
           \<lparr>question = name @ q_suffix_generic,
            options = options_daibutsu,
            correct_answer = 0,
            explanation = name @ e_suffix_daibutsu,
            points = pts\<rparr>
         else if contains token_hachimangu name then
           \<lparr>question = name @ q_suffix_shrine,
            options = options_shrine,
            correct_answer = 0,
            explanation = name @ e_suffix_shrine,
            points = pts\<rparr>
         else
           \<lparr>question = name @ q_suffix_generic,
            options = options_generic,
            correct_answer = 0,
            explanation = name @ e_suffix_generic,
            points = pts\<rparr>)"

section \<open>Response parser\<close>

definition marker_question :: pystr where "marker_question = [0x554F, 0x984C, 0x3A]"
definition marker_answer :: pystr where "marker_answer = [0x6B63, 0x89E3, 0x3A]"
definition marker_explanation :: pystr where "marker_explanation = [0x89E3, 0x8AAC, 0x3A]"

definition default_question :: pystr where
  "default_question =
     [0x3053, 0x306E, 0x5834, 0x6240, 0x306B, 0x3064, 0x3044, 0x3066, 0x6B63, 0x3057,
      0x3044, 0x3082, 0x306E, 0x306F, 0x3069, 0x308C, 0x3067, 0x3057, 0x3087, 0x3046,
      0xFF1F]"

definition default_explanation :: pystr where
  "default_explanation =
     [0x6B74, 0x53F2, 0x7684, 0x306B, 0x91CD, 0x8981, 0x306A, 0x5834, 0x6240, 0x3068,
      0x3057, 0x3066, 0x77E5, 0x3089, 0x308C, 0x3066, 0x3044, 0x307E, 0x3059, 0x3002]"

definition default_options :: "pystr list" where
  "default_options =
     [[0x6B74, 0x53F2, 0x7684, 0x306B, 0x91CD, 0x8981, 0x306A, 0x5834, 0x6240, 0x3067,
       0x3042, 0x308B],
      [0x6700, 0x8FD1, 0x5EFA, 0x8A2D, 0x3055, 0x308C, 0x305F, 0x5EFA, 0x7269, 0x3067,
       0x3042, 0x308B],
      [0x6D77, 0x5916, 0x306B, 0x3042, 0x308B, 0x5834, 0x6240, 0x3067, 0x3042, 0x308B],
      [0x67B6, 0x7A7A, 0x306E, 0x5834, 0x6240, 0x3067, 0x3042, 0x308B]]"

text \<open>\<open>[line.strip() for line in response.split('\n') if line.strip()]\<close>\<close>

definition response_lines :: "pystr \<Rightarrow> pystr list" where
  "response_lines r = map strip (filter (\<lambda>l. strip l \<noteq> []) (split_nl r))"

text \<open>The four local variables that the scan over the lines updates.\<close>

record fields =
  cur_question :: pystr
  cur_options :: "pystr list"
  cur_answer :: int
  cur_explanation :: pystr

definition init_fields :: fields where
  "init_fields = \<lparr>cur_question = [], cur_options = [], cur_answer = 0, cur_explanation = []\<rparr>"

definition is_option_line :: "pystr \<Rightarrow> bool" where
  "is_option_line l =
     (startswith l (ascii ''1.'') \<or> startswith l (ascii ''2.'') \<or>
      startswith l (ascii ''3.'') \<or> startswith l (ascii ''4.''))"

text \<open>
  The inner \<open>try\<close>: \<open>int(...) - 1\<close>, with the handler \<open>except ValueError\<close> that sets
  0. Any other exception of the conversion is not caught here and leaves the loop.
\<close>

definition answer_of_line :: "nat \<Rightarrow> pystr \<Rightarrow> pyexn + int" where
  "answer_of_line lim l =
     (case py_int lim (strip (replace marker_answer [] l)) of
        Inr n \<Rightarrow> Inr (n - 1)
      | Inl e \<Rightarrow> if e = ValueError then Inr 0 else Inl e)"

text \<open>
  One iteration of the loop body: the \<open>if\<close>/\<open>elif\<close> chain, in the source's order. An
  exception that the answer branch lets through ends the iteration.
\<close>

definition scan_line :: "nat \<Rightarrow> pystr \<Rightarrow> fields \<Rightarrow> pyexn + fields" where
  "scan_line lim l st =
     (if startswith l marker_question then
        Inr (st\<lparr>cur_question := strip (replace marker_question [] l)\<rparr>)
      else if is_option_line l then
        Inr (st\<lparr>cur_options := cur_options st @ [strip (drop 2 l)]\<rparr>)
      else if startswith l marker_answer then
        (case answer_of_line lim l of
           Inl e \<Rightarrow> Inl e
         | Inr a \<Rightarrow> Inr (st\<lparr>cur_answer := a\<rparr>))
      else if startswith l marker_explanation then
        Inr (st\<lparr>cur_explanation := strip (replace marker_explanation [] l)\<rparr>)
      else Inr st)"

text \<open>The \<open>for\<close> loop over the lines: it stops at the first iteration that raises.\<close>

fun scan_lines_from :: "nat \<Rightarrow> pystr list \<Rightarrow> fields \<Rightarrow> pyexn + fields" where
  "scan_lines_from lim [] st = Inr st"
| "scan_lines_from lim (l # ls) st =
     (case scan_line lim l st of
        Inl e \<Rightarrow> Inl e
      | Inr st' \<Rightarrow> scan_lines_from lim ls st')"

definition scan_lines :: "nat \<Rightarrow> pystr list \<Rightarrow> pyexn + fields" where
  "scan_lines lim ls = scan_lines_from lim ls init_fields"

definition build_quiz :: "fields \<Rightarrow> int \<Rightarrow> quiz" where
  "build_quiz st pts =
     \<lparr>question = (if cur_question st \<noteq> [] then cur_question st else default_question),
      options = (if length (cur_options st) = 4 then cur_options st else default_options),
      correct_answer = max 0 (min 3 (cur_answer st)),
      explanation =
        (if cur_explanation st \<noteq> [] then cur_explanation st else default_explanation),
      points = pts\<rparr>"

text \<open>
  The body of the outer \<open>try\<close>. On a value without a \<open>split\<close> method the first
  statement raises \<open>AttributeError\<close>; an exception that leaves the loop leaves the body;
  otherwise the dictionary is built and returned.
\<close>

definition parse_body :: "nat \<Rightarrow> pyval \<Rightarrow> int \<Rightarrow> pyexn + quiz" where
  "parse_body lim response pts =
     (case response of
        PyStr r \<Rightarrow>
          (case scan_lines lim (response_lines r) of
             Inl e \<Rightarrow> Inl e
           | Inr st \<Rightarrow> Inr (build_quiz st pts))
      | PyInt i \<Rightarrow> Inl AttributeError
      | PyNone \<Rightarrow> Inl AttributeError)"

text \<open>\<open>_parse_quiz_response(response, points)\<close> with its \<open>except Exception\<close> handler.\<close>

definition parse_quiz_response :: "nat \<Rightarrow> pyval \<Rightarrow> int \<Rightarrow> quiz" where
  "parse_quiz_response lim response pts =
     (case parse_body lim response pts of
        Inr q \<Rightarrow> q
      | Inl e \<Rightarrow> get_fallback_quiz [] (PyInt 15))"

section \<open>Generation through the provider\<close>

definition prompt_about :: pystr where
  "prompt_about = [0x306B, 0x3064, 0x3044, 0x3066]"

definition prompt_level :: pystr where
  "prompt_level =
     [0x30EC, 0x30D9, 0x30EB, 0x306E, 0x30AF, 0x30A4, 0x30BA, 0x3092, 0x31, 0x554F,
      0x4F5C, 0x6210, 0x3057, 0x3066, 0x304F, 0x3060, 0x3055, 0x3044, 0x3002, 0xA, 0xA,
      0x30B9, 0x30DD, 0x30C3, 0x30C8, 0x60C5, 0x5831, 0x3A, 0x20]"

definition prompt_format :: pystr where
  "prompt_format =
     [0xA, 0xA, 0x4EE5, 0x4E0B, 0x306E, 0x5F62, 0x5F0F, 0x3067, 0x56DE, 0x7B54, 0x3A, 0xA,
      0x554F, 0x984C, 0x3A, 0x20, 0x5B, 0x34, 0x629E, 0x554F, 0x984C, 0x6587, 0x5D, 0xA,
      0x31, 0x2E, 0x20, 0x5B, 0x9078, 0x629E, 0x80A2, 0x31, 0x5D, 0xA,
      0x32, 0x2E, 0x20, 0x5B, 0x9078, 0x629E, 0x80A2, 0x32, 0x5D, 0xA,
      0x33, 0x2E, 0x20, 0x5B, 0x9078, 0x629E, 0x80A2, 0x33, 0x5D, 0xA,
      0x34, 0x2E, 0x20, 0x5B, 0x9078, 0x629E, 0x80A2, 0x34, 0x5D, 0xA,
      0x6B63, 0x89E3, 0x3A, 0x20, 0x5B, 0x31, 0x2D, 0x34, 0x306E, 0x6570, 0x5B57, 0x5D, 0xA,
      0x89E3, 0x8AAC, 0x3A, 0x20, 0x5B, 0x7C21, 0x6F54, 0x306A, 0x89E3, 0x8AAC, 0x6587,
      0x5D, 0xA]"

text \<open>The f-string of \<open>_generate_quiz_with_openai\<close>, stripped.\<close>

definition build_prompt :: "pystr \<Rightarrow> pystr \<Rightarrow> pystr \<Rightarrow> pystr" where
  "build_prompt name description diff =
     strip ([0xA] @ name @ prompt_about @ diff @ prompt_level @ description @ prompt_format)"

text \<open>
  What the code reads of a chat completion: the message content of each choice (text,
  or \<open>None\<close>) and the total token count of \<open>usage\<close> (absent when \<open>usage\<close> is \<open>None\<close>).
\<close>

record completion =
  choices :: "pyval list"
  total_tokens :: "nat option"

text \<open>
  The configured client: one call with a prompt either raises or returns a completion.
  Model name, token limit and temperature are fixed at process start and are part of
  the client here.
\<close>

type_synonym client = "pystr \<Rightarrow> pyexn + completion"

text \<open>
  \<open>_generate_quiz_with_openai\<close>. The second component is the list of prompts sent to
  the provider, in order.
\<close>

definition generate_quiz_with_openai ::
  "nat \<Rightarrow> client \<Rightarrow> pystr \<Rightarrow> pystr \<Rightarrow> pystr \<Rightarrow> (pyexn + quiz) \<times> pystr list" where
  "generate_quiz_with_openai lim cl name description diff =
     (let pts = difficulty_points (PyStr diff);
          prompt = build_prompt name description diff
      in case cl prompt of
           Inl e \<Rightarrow> (Inl e, [prompt])
         | Inr response \<Rightarrow>
             (case choices response of
                [] \<Rightarrow> (Inl IndexError, [prompt])
              | quiz_text # rest \<Rightarrow>
                  (let parsed_quiz = parse_quiz_response lim quiz_text pts
                   in case total_tokens response of
                        None \<Rightarrow> (Inl AttributeError, [prompt])
                      | Some n \<Rightarrow> (Inr parsed_quiz, [prompt]))))"

definition fallback_response :: "QuizRequest \<Rightarrow> QuizResponse" where
  "fallback_response request =
     \<lparr>success = True,
      quiz = Some (get_fallback_quiz (spot_name request) (PyStr (difficulty request))),
      generated_by = ascii ''fallback''\<rparr>"

text \<open>
  The endpoint \<open>generate_ai_quiz\<close>; \<open>openai_client\<close> is \<open>None\<close> or the configured
  client. The result is the response and the prompts sent to the provider.
\<close>

definition generate_ai_quiz ::
  "nat \<Rightarrow> client option \<Rightarrow> QuizRequest \<Rightarrow> QuizResponse \<times> pystr list" where
  "generate_ai_quiz lim openai_client request =
     (case openai_client of
        None \<Rightarrow> (fallback_response request, [])
      | Some cl \<Rightarrow>
          (case generate_quiz_with_openai lim cl (spot_name request)
                  (spot_description request) (difficulty request) of
             (Inr quiz_data, sent) \<Rightarrow>
               (\<lparr>success = True, quiz = Some quiz_data, generated_by = ascii ''openai''\<rparr>,
                sent)
           | (Inl e, sent) \<Rightarrow> (fallback_response request, sent)))"

section \<open>Sample inputs\<close>

text \<open>
  Texts and place names used to run the functions: two question, answer and explanation
  lines with two option lines in between; four option lines with the same text; an
  answer line with 9; an answer line with the marker repeated after the digit; and
  place names with both tokens, with the shrine token only, and with neither.
\<close>

definition text_repeated :: pystr where
  "text_repeated =
     [0x554F, 0x984C, 0x3A, 0x20, 0x41, 0xA, 0x554F, 0x984C, 0x3A, 0x20, 0x42, 0xA,
      0x31, 0x2E, 0x20, 0x58, 0xA, 0x6B63, 0x89E3, 0x3A, 0x20, 0x31, 0xA,
      0x6B63, 0x89E3, 0x3A, 0x20, 0x33, 0xA, 0x89E3, 0x8AAC, 0x3A, 0x20, 0x43, 0xA,
      0x32, 0x2E, 0x20, 0x59, 0xA, 0x89E3, 0x8AAC, 0x3A, 0x20, 0x44]"

definition text_same_options :: pystr where
  "text_same_options =
     [0x31, 0x2E, 0x20, 0x41, 0xA, 0x32, 0x2E, 0x20, 0x41, 0xA, 0x33, 0x2E, 0x20, 0x41, 0xA,
      0x34, 0x2E, 0x20, 0x41]"

definition text_answer_nine :: pystr where
  "text_answer_nine = [0x6B63, 0x89E3, 0x3A, 0x20, 0x39]"

definition text_answer_twice :: pystr where
  "text_answer_twice = [0x6B63, 0x89E3, 0x3A, 0x32, 0x6B63, 0x89E3, 0x3A]"

definition name_daibutsu_hachimangu :: pystr where
  "name_daibutsu_hachimangu = [0x938C, 0x5009, 0x5927, 0x4ECF, 0x516B, 0x5E61, 0x5BAE]"

definition name_tsurugaoka :: pystr where
  "name_tsurugaoka = [0x9DB4, 0x5CA1, 0x516B, 0x5E61, 0x5BAE]"

definition name_enoshima :: pystr where
  "name_enoshima = [0x6C5F, 0x30CE, 0x5CF6]"

text \<open>
  A request of the high label, a client that answers it with the answer line for 9, and
  a client whose message has no content (\<open>None\<close>).
\<close>

definition request_enoshima_high :: QuizRequest where
  "request_enoshima_high =
     \<lparr>spot_name = name_enoshima, spot_description = [], difficulty = key_high\<rparr>"

definition client_answer_nine :: client where
  "client_answer_nine prompt =
     Inr \<lparr>choices = [PyStr text_answer_nine], total_tokens = Some 42\<rparr>"

definition client_none_content :: client where
  "client_none_content prompt = Inr \<lparr>choices = [PyNone], total_tokens = Some 42\<rparr>"

section \<open>Facts about the built-ins\<close>

lemma startswith_iff: "startswith s p \<longleftrightarrow> (\<exists>post. s = p @ post)"
  unfolding startswith_def
  by (metis append_eq_conv_conj append_take_drop_id)

text \<open>\<open>contains\<close> computes Python's \<open>in\<close>: some split of the text has \<open>sub\<close> in the middle.\<close>

lemma contains_iff: "contains sub s \<longleftrightarrow> (\<exists>pre post. s = pre @ sub @ post)"
proof (induction s)
  case Nil
  show ?case by auto
next
  case (Cons c cs)
  have "(\<exists>pre post. c # cs = pre @ sub @ post) \<longleftrightarrow>
        (\<exists>post. c # cs = sub @ post) \<or> (\<exists>pre post. cs = pre @ sub @ post)"
  proof
    assume "\<exists>pre post. c # cs = pre @ sub @ post"
    then obtain pre post where e: "c # cs = pre @ sub @ post" by blast
    show "(\<exists>post. c # cs = sub @ post) \<or> (\<exists>pre post. cs = pre @ sub @ post)"
    proof (cases pre)
      case Nil
      with e show ?thesis by auto
    next
      case (Cons a pre')
      with e have "cs = pre' @ sub @ post" by simp
      then show ?thesis by blast
    qed
  next
    assume "(\<exists>post. c # cs = sub @ post) \<or> (\<exists>pre post. cs = pre @ sub @ post)"
    then show "\<exists>pre post. c # cs = pre @ sub @ post"
    proof
      assume "\<exists>post. c # cs = sub @ post"
      then obtain post where "c # cs = [] @ sub @ post" by auto
      then show ?thesis by blast
    next
      assume "\<exists>pre post. cs = pre @ sub @ post"
      then obtain pre post where "c # cs = (c # pre) @ sub @ post" by auto
      then show ?thesis by blast
    qed
  qed
  with Cons show ?case by (simp add: startswith_iff)
qed

lemma replace_from_absent: "\<not> contains old s \<Longrightarrow> replace_from old new s = s"
  by (induction s) auto

text \<open>
  Removing a marker with \<open>replace\<close> is the same as cutting it off the front exactly when
  the marker does not occur again in the rest of the line.
\<close>

lemma replace_prefix_only:
  "startswith l m \<Longrightarrow> m \<noteq> [] \<Longrightarrow> \<not> contains m (drop (length m) l) \<Longrightarrow>
   replace m [] l = drop (length m) l"
  by (cases l) (auto simp: replace_def replace_from_absent startswith_def)

section \<open>Facts about the scan\<close>

lemma ascii_markers:
  "ascii ''1.'' = [0x31, 0x2E]" "ascii ''2.'' = [0x32, 0x2E]"
  "ascii ''3.'' = [0x33, 0x2E]" "ascii ''4.'' = [0x34, 0x2E]"
  by (simp_all add: ascii_def)

text \<open>The markers differ in their first character, so at most one branch of the chain fits a line.\<close>

lemma question_not_option: "startswith l marker_question \<Longrightarrow> \<not> is_option_line l"
  by (cases l) (auto simp: startswith_def is_option_line_def marker_question_def ascii_markers)

lemma answer_not_question: "startswith l marker_answer \<Longrightarrow> \<not> startswith l marker_question"
  by (cases l) (auto simp: startswith_def marker_question_def marker_answer_def)

lemma answer_not_option: "startswith l marker_answer \<Longrightarrow> \<not> is_option_line l"
  by (cases l) (auto simp: startswith_def is_option_line_def marker_answer_def ascii_markers)

lemma explanation_not_question:
  "startswith l marker_explanation \<Longrightarrow> \<not> startswith l marker_question"
  by (cases l) (auto simp: startswith_def marker_question_def marker_explanation_def)

lemma explanation_not_option: "startswith l marker_explanation \<Longrightarrow> \<not> is_option_line l"
  by (cases l) (auto simp: startswith_def is_option_line_def marker_explanation_def ascii_markers)

lemma explanation_not_answer:
  "startswith l marker_explanation \<Longrightarrow> \<not> startswith l marker_answer"
  by (cases l) (auto simp: startswith_def marker_answer_def marker_explanation_def)

text \<open>
  \<open>int\<close> on text raises nothing but \<open>ValueError\<close>, which the inner handler catches: the
  answer branch always yields a value.
\<close>

lemma py_int_raises: "py_int lim s = Inl e \<Longrightarrow> e = ValueError"
  by (auto simp: py_int_def Let_def split: list.splits if_splits option.splits prod.splits)

lemma answer_of_line_value:
  "answer_of_line lim l =
     Inr (case py_int lim (strip (replace marker_answer [] l)) of
            Inl e \<Rightarrow> 0
          | Inr n \<Rightarrow> n - 1)"
proof (cases "py_int lim (strip (replace marker_answer [] l))")
  case (Inl e)
  with py_int_raises [OF Inl] show ?thesis by (simp add: answer_of_line_def)
next
  case (Inr n)
  then show ?thesis by (simp add: answer_of_line_def)
qed

text \<open>So every iteration returns, and so does the loop.\<close>

lemma scan_line_value:
  "scan_line lim l st =
     Inr (if startswith l marker_question then
            st\<lparr>cur_question := strip (replace marker_question [] l)\<rparr>
          else if is_option_line l then
            st\<lparr>cur_options := cur_options st @ [strip (drop 2 l)]\<rparr>
          else if startswith l marker_answer then
            st\<lparr>cur_answer :=
                 (case py_int lim (strip (replace marker_answer [] l)) of
                    Inl e \<Rightarrow> 0
                  | Inr n \<Rightarrow> n - 1)\<rparr>
          else if startswith l marker_explanation then
            st\<lparr>cur_explanation := strip (replace marker_explanation [] l)\<rparr>
          else st)"
  by (simp add: scan_line_def answer_of_line_value)

lemma scan_lines_from_returns: "\<exists>st'. scan_lines_from lim ls st = Inr st'"
proof (induction ls arbitrary: st)
  case Nil
  show ?case by simp
next
  case (Cons l ls)
  obtain st1 where "scan_line lim l st = Inr st1"
    using scan_line_value [of lim l st] by blast
  with Cons.IH [of st1] show ?case by simp
qed

lemma scan_lines_returns: "scan_lines lim ls = Inr (projr (scan_lines lim ls))"
  using scan_lines_from_returns [of lim ls init_fields] by (auto simp: scan_lines_def)

lemma scan_lines_from_append:
  "scan_lines_from lim (ls @ ms) st =
     (case scan_lines_from lim ls st of
        Inl e \<Rightarrow> Inl e
      | Inr st' \<Rightarrow> scan_lines_from lim ms st')"
  by (induction ls arbitrary: st) (auto split: sum.splits)

lemma scan_lines_Nil: "projr (scan_lines lim []) = init_fields"
  by (simp add: scan_lines_def)

lemma scan_lines_snoc:
  "projr (scan_lines lim (ls @ [l])) = projr (scan_line lim l (projr (scan_lines lim ls)))"
proof -
  obtain st where st: "scan_lines_from lim ls init_fields = Inr st"
    using scan_lines_from_returns by blast
  obtain st' where "scan_line lim l st = Inr st'"
    using scan_line_value [of lim l st] by blast
  with st show ?thesis by (simp add: scan_lines_def scan_lines_from_append)
qed

lemma scan_options:
  "cur_options (projr (scan_lines lim ls)) =
     map (\<lambda>l. strip (drop 2 l)) (filter is_option_line ls)"
proof (induction ls rule: rev_induct)
  case Nil
  show ?case by (simp add: scan_lines_Nil init_fields_def)
next
  case (snoc l ls)
  then show ?case
    by (auto simp: scan_lines_snoc scan_line_value question_not_option)
qed

lemma scan_question:
  "cur_question (projr (scan_lines lim ls)) =
     (let qs = filter (\<lambda>l. startswith l marker_question) ls
      in if qs = [] then [] else strip (replace marker_question [] (last qs)))"
proof (induction ls rule: rev_induct)
  case Nil
  show ?case by (simp add: scan_lines_Nil init_fields_def)
next
  case (snoc l ls)
  then show ?case
    by (auto simp: scan_lines_snoc scan_line_value Let_def)
qed

lemma scan_answer:
  "cur_answer (projr (scan_lines lim ls)) =
     (let as = filter (\<lambda>l. startswith l marker_answer) ls
      in if as = [] then 0
         else (case py_int lim (strip (replace marker_answer [] (last as))) of
                 Inl e \<Rightarrow> 0
               | Inr n \<Rightarrow> n - 1))"
proof (induction ls rule: rev_induct)
  case Nil
  show ?case by (simp add: scan_lines_Nil init_fields_def)
next
  case (snoc l ls)
  then show ?case
    by (auto simp: scan_lines_snoc scan_line_value Let_def answer_not_question
        answer_not_option)
qed

lemma scan_explanation:
  "cur_explanation (projr (scan_lines lim ls)) =
     (let es = filter (\<lambda>l. startswith l marker_explanation) ls
      in if es = [] then [] else strip (replace marker_explanation [] (last es)))"
proof (induction ls rule: rev_induct)
  case Nil
  show ?case by (simp add: scan_lines_Nil init_fields_def)
next
  case (snoc l ls)
  then show ?case
    by (auto simp: scan_lines_snoc scan_line_value Let_def explanation_not_question
        explanation_not_option explanation_not_answer)
qed

lemma default_options_length: "length default_options = 4"
  by (simp add: default_options_def)

lemma default_question_nonempty: "default_question \<noteq> []"
  by (simp add: default_question_def)

lemma default_explanation_nonempty: "default_explanation \<noteq> []"
  by (simp add: default_explanation_def)

text \<open>On text the loop returns, so the handler of the outer \<open>try\<close> is not entered.\<close>

lemma parse_body_str:
  "parse_body lim (PyStr r) pts =
     Inr (build_quiz (projr (scan_lines lim (response_lines r))) pts)"
proof -
  obtain st where st: "scan_lines lim (response_lines r) = Inr st"
    using scan_lines_returns by blast
  then show ?thesis by (simp add: parse_body_def)
qed

lemma parse_str:
  "parse_quiz_response lim (PyStr r) pts =
     build_quiz (projr (scan_lines lim (response_lines r))) pts"
  by (simp add: parse_quiz_response_def parse_body_str)

text \<open>On \<open>None\<close> it is, and the caller's points are replaced by 15.\<close>

lemma parse_none:
  "parse_quiz_response lim PyNone pts = get_fallback_quiz [] (PyInt 15) \<and>
   points (parse_quiz_response lim PyNone pts) = 15"
  by (simp add: parse_quiz_response_def parse_body_def get_fallback_quiz_def
      difficulty_points_def dict_get_def points_table_def Let_def)

lemma build_quiz_invariant:
  "length (options (build_quiz st pts)) = 4 \<and> 0 \<le> correct_answer (build_quiz st pts) \<and>
   correct_answer (build_quiz st pts) \<le> 3 \<and> question (build_quiz st pts) \<noteq> [] \<and>
   explanation (build_quiz st pts) \<noteq> []"
  by (simp add: build_quiz_def default_options_length default_question_nonempty
      default_explanation_nonempty)

text \<open>The equations that evaluate the parser on a given text.\<close>

lemmas parse_eval = parse_str response_lines_def strip_def isspace_def scan_lines_def
  scan_line_value startswith_def marker_question_def marker_answer_def marker_explanation_def
  is_option_line_def ascii_markers replace_def py_int_def digit_val_def
  decimal_zeros_def build_quiz_def init_fields_def

section \<open>The parser's guarantees\<close>

text \<open>
  C1. For every text \<open>raw_text\<close> and every integer \<open>pts\<close>, the parser returns a quiz
  with exactly four options, an answer index between 0 and 3, and a non-empty question
  and explanation, however malformed or empty the text is.
\<close>

theorem parse_quiz_response_wellformed:
  "length (options (parse_quiz_response lim (PyStr raw_text) pts)) = 4 \<and>
   0 \<le> correct_answer (parse_quiz_response lim (PyStr raw_text) pts) \<and>
   correct_answer (parse_quiz_response lim (PyStr raw_text) pts) \<le> 3 \<and>
   question (parse_quiz_response lim (PyStr raw_text) pts) \<noteq> [] \<and>
   explanation (parse_quiz_response lim (PyStr raw_text) pts) \<noteq> []"
  unfolding parse_str by (rule build_quiz_invariant)

text \<open>The empty text, with a negative number of points.\<close>

theorem parse_quiz_response_wellformed_witness:
  "length (options (parse_quiz_response 4300 (PyStr []) (- 7))) = 4 \<and>
   0 \<le> correct_answer (parse_quiz_response 4300 (PyStr []) (- 7)) \<and>
   correct_answer (parse_quiz_response 4300 (PyStr []) (- 7)) \<le> 3 \<and>
   question (parse_quiz_response 4300 (PyStr []) (- 7)) \<noteq> [] \<and>
   explanation (parse_quiz_response 4300 (PyStr []) (- 7)) \<noteq> []"
  by (rule parse_quiz_response_wellformed)

text \<open>
  C7. When the number of option lines collected from the text is not exactly four
  (fewer, or more through repeated markers), everything collected is dropped and the
  fixed generic list of four options is returned; the collected options are returned
  only when there are exactly four.
\<close>

theorem options_replaced_unless_four:
  "options (parse_quiz_response lim (PyStr raw_text) pts) =
     (let collected =
            map (\<lambda>l. strip (drop 2 l)) (filter is_option_line (response_lines raw_text))
      in if length collected = 4 then collected else default_options)"
  by (simp add: parse_str build_quiz_def scan_options Let_def)

text \<open>
  A text with two option lines, one with five (the marker \<open>1.\<close> twice), and one with
  four.
\<close>

theorem options_replaced_unless_four_witness:
  "options (parse_quiz_response 4300
      (PyStr [0x554F, 0x984C, 0x3A, 0x20, 0x51, 0xA, 0x31, 0x2E, 0x20, 0x41, 0xA,
              0x32, 0x2E, 0x20, 0x42]) 15) = default_options \<and>
   options (parse_quiz_response 4300
      (PyStr [0x31, 0x2E, 0x20, 0x41, 0xA, 0x32, 0x2E, 0x20, 0x42, 0xA, 0x33, 0x2E, 0x20, 0x43,
              0xA, 0x34, 0x2E, 0x20, 0x44, 0xA, 0x31, 0x2E, 0x20, 0x45]) 15) = default_options \<and>
   options (parse_quiz_response 4300
      (PyStr [0x31, 0x2E, 0x20, 0x41, 0xA, 0x32, 0x2E, 0x20, 0x42, 0xA, 0x33, 0x2E, 0x20, 0x43,
              0xA, 0x34, 0x2E, 0x20, 0x44]) 15) = [[0x41], [0x42], [0x43], [0x44]]"
  by (simp add: options_replaced_unless_four response_lines_def strip_def isspace_def
      is_option_line_def startswith_def ascii_markers)

text \<open>
  C9. For every text, the points of the parser's quiz are the points passed by the
  caller. The handler of the outer \<open>try\<close>, which answers with 15 points whatever the
  caller passed (as it does for \<open>None\<close>), is not entered on text: every operation of the
  body returns on text, and the one conversion that raises, \<open>int\<close> of the answer line,
  raises only \<open>ValueError\<close>, which the inner handler catches.
\<close>

theorem parser_points_passthrough:
  "parse_body lim (PyStr raw_text) pts = Inr (parse_quiz_response lim (PyStr raw_text) pts) \<and>
   points (parse_quiz_response lim (PyStr raw_text) pts) = pts \<and>
   parse_body lim PyNone pts = Inl AttributeError \<and>
   points (parse_quiz_response lim PyNone pts) = 15"
proof -
  have a: "parse_body lim (PyStr raw_text) pts =
      Inr (parse_quiz_response lim (PyStr raw_text) pts)"
    by (simp add: parse_quiz_response_def parse_body_str)
  have b: "points (parse_quiz_response lim (PyStr raw_text) pts) = pts"
    by (simp add: parse_str build_quiz_def)
  have c: "parse_body lim PyNone pts = Inl AttributeError"
    by (simp add: parse_body_def)
  have d: "points (parse_quiz_response lim PyNone pts) = 15"
    using parse_none [of lim pts] by blast
  from a b c d show ?thesis by blast
qed

text \<open>An answer line that \<open>int\<close> rejects, with 20 points.\<close>

theorem parser_points_passthrough_witness:
  "parse_body 4300 (PyStr [0x6B63, 0x89E3, 0x3A, 0x20, 0x78]) 20 =
     Inr (parse_quiz_response 4300 (PyStr [0x6B63, 0x89E3, 0x3A, 0x20, 0x78]) 20) \<and>
   points (parse_quiz_response 4300 (PyStr [0x6B63, 0x89E3, 0x3A, 0x20, 0x78]) 20) = 20 \<and>
   py_int 4300 (strip (replace marker_answer [] [0x6B63, 0x89E3, 0x3A, 0x20, 0x78])) =
     Inl ValueError"
  using parser_points_passthrough [of 4300 "[0x6B63, 0x89E3, 0x3A, 0x20, 0x78]" 20]
  by (simp add: py_int_def strip_def isspace_def replace_def startswith_def marker_answer_def
      digit_val_def decimal_zeros_def)

text \<open>
  C10. When the text has several lines beginning with the same marker, the last one
  decides the question, the answer and the explanation (a later line overwrites what an
  earlier one set), whereas the option lines accumulate, appended in the order in which
  they occur.
\<close>

theorem later_marker_lines_overwrite:
  "question (parse_quiz_response lim (PyStr raw_text) pts) =
     (let qs = filter (\<lambda>l. startswith l marker_question) (response_lines raw_text)
      in if qs = [] \<or> strip (replace marker_question [] (last qs)) = [] then default_question
         else strip (replace marker_question [] (last qs))) \<and>
   correct_answer (parse_quiz_response lim (PyStr raw_text) pts) =
     (let as = filter (\<lambda>l. startswith l marker_answer) (response_lines raw_text)
      in if as = [] then 0
         else max 0 (min 3 (case py_int lim (strip (replace marker_answer [] (last as))) of
                              Inl e \<Rightarrow> 0
                            | Inr n \<Rightarrow> n - 1))) \<and>
   explanation (parse_quiz_response lim (PyStr raw_text) pts) =
     (let es = filter (\<lambda>l. startswith l marker_explanation) (response_lines raw_text)
      in if es = [] \<or> strip (replace marker_explanation [] (last es)) = []
         then default_explanation
         else strip (replace marker_explanation [] (last es))) \<and>
   map_sum id cur_options (scan_lines lim (response_lines raw_text)) =
     Inr (map (\<lambda>l. strip (drop 2 l)) (filter is_option_line (response_lines raw_text)))"
proof -
  have "map_sum id cur_options (scan_lines lim (response_lines raw_text)) =
      Inr (cur_options (projr (scan_lines lim (response_lines raw_text))))"
    by (subst scan_lines_returns) simp
  then show ?thesis
    by (simp add: parse_str build_quiz_def scan_question scan_answer scan_explanation
        scan_options Let_def)
qed

lemma text_repeated_lines:
  "response_lines text_repeated =
   [[0x554F, 0x984C, 0x3A, 0x20, 0x41], [0x554F, 0x984C, 0x3A, 0x20, 0x42],
    [0x31, 0x2E, 0x20, 0x58], [0x6B63, 0x89E3, 0x3A, 0x20, 0x31],
    [0x6B63, 0x89E3, 0x3A, 0x20, 0x33], [0x89E3, 0x8AAC, 0x3A, 0x20, 0x43],
    [0x32, 0x2E, 0x20, 0x59], [0x89E3, 0x8AAC, 0x3A, 0x20, 0x44]]"
  by (simp add: text_repeated_def response_lines_def strip_def isspace_def)

text \<open>Two lines for each marker: the second question, answer and explanation are returned.\<close>

theorem later_marker_lines_overwrite_witness:
  "question (parse_quiz_response 4300 (PyStr text_repeated) 15) = [0x42] \<and>
   correct_answer (parse_quiz_response 4300 (PyStr text_repeated) 15) = 2 \<and>
   explanation (parse_quiz_response 4300 (PyStr text_repeated) 15) = [0x44] \<and>
   map_sum id cur_options (scan_lines 4300 (response_lines text_repeated)) =
     Inr [[0x58], [0x59]]"
  using later_marker_lines_overwrite [of 4300 text_repeated 15]
  unfolding text_repeated_lines
  by (simp add: startswith_def marker_question_def marker_answer_def marker_explanation_def
      is_option_line_def ascii_markers replace_def py_int_def digit_val_def
      decimal_zeros_def strip_def isspace_def)

section \<open>The answer line\<close>

text \<open>
  The answer is not read from the remainder of the line after its leading marker: the
  code removes the marker with \<open>replace\<close>, that is wherever it occurs. On the line that
  repeats the marker after the digit 2, the remainder after the leading marker is not a
  number, yet the answer is not the default 0 but 2 - 1 = 1.
\<close>

theorem answer_remainder_counterexample:
  "startswith text_answer_twice marker_answer \<and>
   py_int 4300 (strip (drop (length marker_answer) text_answer_twice)) = Inl ValueError \<and>
   correct_answer (parse_quiz_response 4300 (PyStr text_answer_twice) 15) = 1"
  by (simp add: text_answer_twice_def parse_eval)

text \<open>
  C6 (as the code has it). A line beginning with the answer marker has every occurrence
  of the marker removed; what is left is trimmed and parsed as an integer, and 1 is
  subtracted; when it is not an integer the answer is 0. When the marker occurs only at
  the start of the line, what is parsed is the remainder of the line. The final answer
  is the scanned one clamped into \<open>[0, 3]\<close>; the answer line with 9 gives 3.
\<close>

theorem answer_line_parsed_and_clamped:
  "(startswith l marker_answer \<longrightarrow>
      scan_line lim l st =
        Inr (st\<lparr>cur_answer :=
                  (case py_int lim (strip (replace marker_answer [] l)) of
                     Inl e \<Rightarrow> 0
                   | Inr n \<Rightarrow> n - 1)\<rparr>)) \<and>
   (startswith l marker_answer \<and> \<not> contains marker_answer (drop 3 l) \<longrightarrow>
      replace marker_answer [] l = drop 3 l) \<and>
   map_sum id (\<lambda>st. max 0 (min 3 (cur_answer st))) (scan_lines lim (response_lines raw_text)) =
     Inr (correct_answer (parse_quiz_response lim (PyStr raw_text) pts)) \<and>
   0 \<le> correct_answer (parse_quiz_response lim (PyStr raw_text) pts) \<and>
   correct_answer (parse_quiz_response lim (PyStr raw_text) pts) \<le> 3 \<and>
   correct_answer (parse_quiz_response lim (PyStr text_answer_nine) pts) = 3"
proof -
  have a: "startswith l marker_answer \<longrightarrow>
      scan_line lim l st =
        Inr (st\<lparr>cur_answer :=
                  (case py_int lim (strip (replace marker_answer [] l)) of
                     Inl e \<Rightarrow> 0
                   | Inr n \<Rightarrow> n - 1)\<rparr>)"
    by (simp add: scan_line_value answer_not_question answer_not_option)
  have b: "startswith l marker_answer \<and> \<not> contains marker_answer (drop 3 l) \<longrightarrow>
      replace marker_answer [] l = drop 3 l"
  proof -
    have len: "length marker_answer = 3" and ne: "marker_answer \<noteq> []"
      by (simp_all add: marker_answer_def)
    show ?thesis using replace_prefix_only [of l marker_answer] len ne by auto
  qed
  have c: "map_sum id (\<lambda>st. max 0 (min 3 (cur_answer st)))
        (scan_lines lim (response_lines raw_text)) =
      Inr (correct_answer (parse_quiz_response lim (PyStr raw_text) pts))"
    by (subst scan_lines_returns) (simp add: parse_str build_quiz_def)
  have d: "correct_answer (parse_quiz_response lim (PyStr text_answer_nine) pts) = 3"
    by (auto simp: text_answer_nine_def parse_eval)
  have e: "0 \<le> correct_answer (parse_quiz_response lim (PyStr raw_text) pts) \<and>
      correct_answer (parse_quiz_response lim (PyStr raw_text) pts) \<le> 3"
    by (simp add: parse_str build_quiz_def)
  from a b c d e show ?thesis by blast
qed

text \<open>The answer line with 9: the scan sets 8, the parser returns 3.\<close>

theorem answer_line_parsed_and_clamped_witness:
  "startswith text_answer_nine marker_answer \<and>
   \<not> contains marker_answer (drop 3 text_answer_nine) \<and>
   scan_line 4300 text_answer_nine init_fields = Inr (init_fields\<lparr>cur_answer := 8\<rparr>) \<and>
   replace marker_answer [] text_answer_nine = [0x20, 0x39] \<and>
   correct_answer (parse_quiz_response 4300 (PyStr text_answer_nine) 15) = 3"
proof -
  have h1: "startswith text_answer_nine marker_answer"
    by (simp add: text_answer_nine_def startswith_def marker_answer_def)
  have h2: "\<not> contains marker_answer (drop 3 text_answer_nine)"
    by (simp add: text_answer_nine_def startswith_def marker_answer_def)
  have e: "py_int 4300 (strip [0x20, 0x39]) = Inr 9"
    by (simp add: py_int_def strip_def isspace_def digit_val_def decimal_zeros_def)
  have d: "drop 3 text_answer_nine = [0x20, 0x39]"
    by (simp add: text_answer_nine_def)
  from answer_line_parsed_and_clamped [of text_answer_nine 4300 init_fields text_answer_nine 15]
    h1 h2 e d
  show ?thesis by simp
qed

section \<open>The options of a quiz\<close>

lemma fallback_options_cases:
  "options (get_fallback_quiz name d) = options_daibutsu \<or>
   options (get_fallback_quiz name d) = options_shrine \<or>
   options (get_fallback_quiz name d) = options_generic"
  by (simp add: get_fallback_quiz_def Let_def)

lemma catalog_options_wellformed:
  "length options_daibutsu = 4 \<and> distinct options_daibutsu \<and> [] \<notin> set options_daibutsu"
  "length options_shrine = 4 \<and> distinct options_shrine \<and> [] \<notin> set options_shrine"
  "length options_generic = 4 \<and> distinct options_generic \<and> [] \<notin> set options_generic"
  "length default_options = 4 \<and> distinct default_options \<and> [] \<notin> set default_options"
  by (simp_all add: options_daibutsu_def options_shrine_def name_yoritomo_def
      options_generic_def default_options_def)

text \<open>
  The parser does not compare the options it collects: four option lines with the same
  text are returned as four equal options.
\<close>

theorem same_options_counterexample:
  "options (parse_quiz_response 4300 (PyStr text_same_options) 15) =
     [[0x41], [0x41], [0x41], [0x41]] \<and>
   \<not> distinct (options (parse_quiz_response 4300 (PyStr text_same_options) 15))"
  by (simp add: text_same_options_def parse_eval)

text \<open>
  C2 (as the code has it). Every quiz has exactly four options. Those of the fallback
  catalog are pairwise distinct and non-empty, and so are the parser's when the text
  does not have exactly four option lines (the generic list). When it has exactly four,
  the parser returns their texts as they are.
\<close>

theorem options_four_catalog_distinct:
  "length (options (get_fallback_quiz name d)) = 4 \<and>
   distinct (options (get_fallback_quiz name d)) \<and>
   [] \<notin> set (options (get_fallback_quiz name d)) \<and>
   length (options (parse_quiz_response lim (PyStr raw_text) pts)) = 4 \<and>
   (length (filter is_option_line (response_lines raw_text)) \<noteq> 4 \<longrightarrow>
      options (parse_quiz_response lim (PyStr raw_text) pts) = default_options \<and>
      distinct (options (parse_quiz_response lim (PyStr raw_text) pts)) \<and>
      [] \<notin> set (options (parse_quiz_response lim (PyStr raw_text) pts))) \<and>
   (length (filter is_option_line (response_lines raw_text)) = 4 \<longrightarrow>
      options (parse_quiz_response lim (PyStr raw_text) pts) =
        map (\<lambda>l. strip (drop 2 l)) (filter is_option_line (response_lines raw_text)))"
proof -
  have f: "length (options (get_fallback_quiz name d)) = 4 \<and>
      distinct (options (get_fallback_quiz name d)) \<and>
      [] \<notin> set (options (get_fallback_quiz name d))"
    using fallback_options_cases [of name d] catalog_options_wellformed by metis
  have p: "length (options (parse_quiz_response lim (PyStr raw_text) pts)) = 4"
    unfolding parse_str using build_quiz_invariant by blast
  have o: "options (parse_quiz_response lim (PyStr raw_text) pts) =
      (if length (filter is_option_line (response_lines raw_text)) = 4
       then map (\<lambda>l. strip (drop 2 l)) (filter is_option_line (response_lines raw_text))
       else default_options)"
    by (simp add: parse_str build_quiz_def scan_options)
  from f p o catalog_options_wellformed(4) show ?thesis by simp
qed

text \<open>
  A text with two option lines, the text with four equal ones, and the catalog's quiz
  for a shrine.
\<close>

theorem options_four_catalog_distinct_witness:
  "length (filter is_option_line (response_lines text_repeated)) \<noteq> 4 \<and>
   options (parse_quiz_response 4300 (PyStr text_repeated) 15) = default_options \<and>
   length (filter is_option_line (response_lines text_same_options)) = 4 \<and>
   options (parse_quiz_response 4300 (PyStr text_same_options) 15) =
     [[0x41], [0x41], [0x41], [0x41]] \<and>
   distinct (options (get_fallback_quiz name_tsurugaoka (PyStr key_high)))"
proof -
  have l2: "filter is_option_line (response_lines text_repeated) =
              [[0x31, 0x2E, 0x20, 0x58], [0x32, 0x2E, 0x20, 0x59]]"
    by (simp add: text_repeated_lines is_option_line_def startswith_def ascii_markers)
  have l4: "filter is_option_line (response_lines text_same_options) =
              [[0x31, 0x2E, 0x20, 0x41], [0x32, 0x2E, 0x20, 0x41], [0x33, 0x2E, 0x20, 0x41],
               [0x34, 0x2E, 0x20, 0x41]]"
    by (simp add: text_same_options_def response_lines_def strip_def isspace_def
        is_option_line_def startswith_def ascii_markers)
  from options_four_catalog_distinct [of name_tsurugaoka "PyStr key_high" 4300 text_repeated 15]
    options_four_catalog_distinct [of name_tsurugaoka "PyStr key_high" 4300 text_same_options 15]
  show ?thesis unfolding l2 l4 by (simp add: strip_def isspace_def)
qed

section \<open>The fallback catalog\<close>

text \<open>
  C5. The catalog chooses by substring rules in a fixed order, the first match winning:
  a name containing the Great Buddha token gets the Great Buddha quiz (also when it
  contains the shrine token); otherwise a name containing the shrine token gets the
  shrine quiz, whose first option is Minamoto no Yoritomo; otherwise the generic quiz.
  In all three the answer is 0, there are four options, and the name starts the
  question and the explanation.
\<close>

theorem fallback_selection_priority:
  "(contains token_daibutsu name \<longrightarrow>
      get_fallback_quiz name d =
        \<lparr>question = name @ q_suffix_generic, options = options_daibutsu, correct_answer = 0,
         explanation = name @ e_suffix_daibutsu, points = difficulty_points d\<rparr>) \<and>
   (\<not> contains token_daibutsu name \<and> contains token_hachimangu name \<longrightarrow>
      get_fallback_quiz name d =
        \<lparr>question = name @ q_suffix_shrine, options = options_shrine, correct_answer = 0,
         explanation = name @ e_suffix_shrine, points = difficulty_points d\<rparr> \<and>
      hd (options (get_fallback_quiz name d)) = name_yoritomo) \<and>
   (\<not> contains token_daibutsu name \<and> \<not> contains token_hachimangu name \<longrightarrow>
      get_fallback_quiz name d =
        \<lparr>question = name @ q_suffix_generic, options = options_generic, correct_answer = 0,
         explanation = name @ e_suffix_generic, points = difficulty_points d\<rparr>) \<and>
   correct_answer (get_fallback_quiz name d) = 0 \<and>
   length (options (get_fallback_quiz name d)) = 4 \<and>
   take (length name) (question (get_fallback_quiz name d)) = name \<and>
   take (length name) (explanation (get_fallback_quiz name d)) = name"
  by (simp add: get_fallback_quiz_def Let_def options_shrine_def catalog_options_wellformed)

text \<open>A name with both tokens, one with the shrine token only, one with neither.\<close>

theorem fallback_selection_priority_witness:
  "contains token_daibutsu name_daibutsu_hachimangu \<and>
   contains token_hachimangu name_daibutsu_hachimangu \<and>
   options (get_fallback_quiz name_daibutsu_hachimangu (PyStr key_high)) = options_daibutsu \<and>
   \<not> contains token_daibutsu name_tsurugaoka \<and> contains token_hachimangu name_tsurugaoka \<and>
   hd (options (get_fallback_quiz name_tsurugaoka (PyStr key_high))) = name_yoritomo \<and>
   \<not> contains token_daibutsu name_enoshima \<and> \<not> contains token_hachimangu name_enoshima \<and>
   question (get_fallback_quiz name_enoshima (PyStr key_high)) = name_enoshima @ q_suffix_generic"
proof -
  have b: "contains token_daibutsu name_daibutsu_hachimangu"
      "contains token_hachimangu name_daibutsu_hachimangu"
    by (simp_all add: name_daibutsu_hachimangu_def token_daibutsu_def token_hachimangu_def
        startswith_def)
  have t: "\<not> contains token_daibutsu name_tsurugaoka" "contains token_hachimangu name_tsurugaoka"
    by (simp_all add: name_tsurugaoka_def token_daibutsu_def token_hachimangu_def
        startswith_def)
  have e: "\<not> contains token_daibutsu name_enoshima" "\<not> contains token_hachimangu name_enoshima"
    by (simp_all add: name_enoshima_def token_daibutsu_def token_hachimangu_def
        startswith_def)
  from fallback_selection_priority [of name_daibutsu_hachimangu "PyStr key_high"]
    fallback_selection_priority [of name_tsurugaoka "PyStr key_high"]
    fallback_selection_priority [of name_enoshima "PyStr key_high"] b t e
  show ?thesis by (simp add: options_shrine_def)
qed

section \<open>Points\<close>

text \<open>
  On the generation path the points do not always follow the difficulty: when the
  message of the provider has no content (\<open>None\<close>), the parser's handler answers with
  the generic fallback quiz, whose points are 15, also for the high label (20), and the
  response is tagged \<open>openai\<close>.
\<close>

theorem none_content_points_counterexample:
  "difficulty_points (PyStr (difficulty request_enoshima_high)) = 20 \<and>
   fst (generate_ai_quiz 4300 (Some client_none_content) request_enoshima_high) =
     \<lparr>success = True, quiz = Some (get_fallback_quiz [] (PyInt 15)),
      generated_by = ascii ''openai''\<rparr> \<and>
   points (get_fallback_quiz [] (PyInt 15)) = 15"
  by (simp add: request_enoshima_high_def client_none_content_def generate_ai_quiz_def
      generate_quiz_with_openai_def parse_quiz_response_def parse_body_def
      get_fallback_quiz_def difficulty_points_def dict_get_def points_table_def Let_def
      key_elementary_def key_middle_def key_high_def)

text \<open>
  C4 (as the code has it). The points come from the difficulty label through one
  lookup: 10 for the elementary label, 15 for the middle one, 20 for the high one, and
  15 for any other text. The fallback catalog returns this value, and so does the
  generation path whenever the content of the provider's message is text. When the
  content is not text, the generation path returns the generic fallback quiz with 15
  points, whatever the difficulty.
\<close>

theorem points_by_difficulty:
  "difficulty_points (PyStr diff) =
     (if diff = key_elementary then 10 else if diff = key_middle then 15
      else if diff = key_high then 20 else 15) \<and>
   points (get_fallback_quiz name (PyStr diff)) = difficulty_points (PyStr diff) \<and>
   (cl (build_prompt name description diff) = Inr response \<and>
    choices response = PyStr raw_text # rest \<and> total_tokens response = Some n \<longrightarrow>
      fst (generate_quiz_with_openai lim cl name description diff) =
        Inr (parse_quiz_response lim (PyStr raw_text) (difficulty_points (PyStr diff))) \<and>
      points (parse_quiz_response lim (PyStr raw_text) (difficulty_points (PyStr diff))) =
        difficulty_points (PyStr diff)) \<and>
   (cl (build_prompt name description diff) = Inr response \<and>
    choices response = content # rest \<and> (content = PyNone \<or> content = PyInt i) \<and>
    total_tokens response = Some n \<longrightarrow>
      fst (generate_quiz_with_openai lim cl name description diff) =
        Inr (get_fallback_quiz [] (PyInt 15)) \<and>
      points (get_fallback_quiz [] (PyInt 15)) = 15)"
proof -
  have a: "difficulty_points (PyStr diff) =
     (if diff = key_elementary then 10 else if diff = key_middle then 15
      else if diff = key_high then 20 else 15)"
    by (simp add: difficulty_points_def dict_get_def points_table_def)
  have b: "points (get_fallback_quiz name (PyStr diff)) = difficulty_points (PyStr diff)"
    by (simp add: get_fallback_quiz_def Let_def)
  have c: "cl (build_prompt name description diff) = Inr response \<and>
    choices response = PyStr raw_text # rest \<and> total_tokens response = Some n \<longrightarrow>
      fst (generate_quiz_with_openai lim cl name description diff) =
        Inr (parse_quiz_response lim (PyStr raw_text) (difficulty_points (PyStr diff))) \<and>
      points (parse_quiz_response lim (PyStr raw_text) (difficulty_points (PyStr diff))) =
        difficulty_points (PyStr diff)"
    by (simp add: generate_quiz_with_openai_def Let_def parse_str build_quiz_def)
  have h: "parse_quiz_response lim content p = get_fallback_quiz [] (PyInt 15)"
    if "content = PyNone \<or> content = PyInt i" for p
    using that by (auto simp: parse_quiz_response_def parse_body_def)
  have p15: "points (get_fallback_quiz [] (PyInt 15)) = 15"
    by (simp add: get_fallback_quiz_def difficulty_points_def dict_get_def points_table_def
        Let_def)
  have d: "cl (build_prompt name description diff) = Inr response \<and>
    choices response = content # rest \<and> (content = PyNone \<or> content = PyInt i) \<and>
    total_tokens response = Some n \<longrightarrow>
      fst (generate_quiz_with_openai lim cl name description diff) =
        Inr (get_fallback_quiz [] (PyInt 15)) \<and>
      points (get_fallback_quiz [] (PyInt 15)) = 15"
    using h p15 by (auto simp: generate_quiz_with_openai_def Let_def)
  from a b c d show ?thesis by blast
qed

text \<open>
  The three labels, a text that is no label, and a request of the high label answered
  once with text and once without content.
\<close>

theorem points_by_difficulty_witness:
  "difficulty_points (PyStr key_elementary) = 10 \<and>
   difficulty_points (PyStr key_middle) = 15 \<and>
   difficulty_points (PyStr key_high) = 20 \<and>
   difficulty_points (PyStr name_enoshima) = 15 \<and>
   points (get_fallback_quiz name_enoshima (PyStr key_high)) = 20 \<and>
   map_sum id points
     (fst (generate_quiz_with_openai 4300 client_answer_nine name_enoshima [] key_high)) =
     Inr 20 \<and>
   map_sum id points
     (fst (generate_quiz_with_openai 4300 client_none_content name_enoshima [] key_high)) =
     Inr 15"
proof -
  have k: "key_elementary \<noteq> key_middle" "key_elementary \<noteq> key_high" "key_middle \<noteq> key_high"
      "name_enoshima \<noteq> key_elementary" "name_enoshima \<noteq> key_middle"
      "name_enoshima \<noteq> key_high"
    by (simp_all add: key_elementary_def key_middle_def key_high_def name_enoshima_def)
  have c9: "client_answer_nine (build_prompt name_enoshima [] key_high) =
      Inr \<lparr>choices = [PyStr text_answer_nine], total_tokens = Some 42\<rparr>"
    by (simp add: client_answer_nine_def)
  have cn: "client_none_content (build_prompt name_enoshima [] key_high) =
      Inr \<lparr>choices = [PyNone], total_tokens = Some 42\<rparr>"
    by (simp add: client_none_content_def)
  from points_by_difficulty [of key_elementary]
    points_by_difficulty [of key_middle]
    points_by_difficulty [of name_enoshima]
    points_by_difficulty [of key_high name_enoshima client_answer_nine "[]"
      "\<lparr>choices = [PyStr text_answer_nine], total_tokens = Some 42\<rparr>" text_answer_nine
      "[]" 42 4300 PyNone 0]
    points_by_difficulty [of key_high name_enoshima client_none_content "[]"
      "\<lparr>choices = [PyNone], total_tokens = Some 42\<rparr>" "[]"
      "[]" 42 4300 PyNone 0] k c9 cn
  show ?thesis by (simp add: parse_str build_quiz_def)
qed

section \<open>The endpoint\<close>

text \<open>
  C3. The endpoint never reports failure. Without a configured client it returns the
  fallback quiz for the name and the difficulty, tagged \<open>fallback\<close>, and sends nothing
  to the provider. When the generation raises, whatever the exception, it returns the
  same fallback response. The response always has \<open>success = True\<close> and a quiz, and at
  most one prompt is sent: nothing is tried again.
\<close>

theorem generation_never_fails:
  "generate_ai_quiz lim None request = (fallback_response request, []) \<and>
   (fst (generate_quiz_with_openai lim cl (spot_name request) (spot_description request)
           (difficulty request)) = Inl e \<longrightarrow>
      fst (generate_ai_quiz lim (Some cl) request) = fallback_response request) \<and>
   (cl (build_prompt (spot_name request) (spot_description request) (difficulty request)) =
      Inl e \<longrightarrow>
      fst (generate_ai_quiz lim (Some cl) request) = fallback_response request) \<and>
   success (fst (generate_ai_quiz lim openai_client request)) \<and>
   quiz (fst (generate_ai_quiz lim openai_client request)) \<noteq> None \<and>
   length (snd (generate_ai_quiz lim openai_client request)) \<le> 1 \<and>
   fallback_response request =
     \<lparr>success = True,
      quiz = Some (get_fallback_quiz (spot_name request) (PyStr (difficulty request))),
      generated_by = ascii ''fallback''\<rparr>"
proof -
  have a: "generate_ai_quiz lim None request = (fallback_response request, [])"
    by (simp add: generate_ai_quiz_def)
  have b: "fst (generate_quiz_with_openai lim cl (spot_name request) (spot_description request)
           (difficulty request)) = Inl e \<longrightarrow>
      fst (generate_ai_quiz lim (Some cl) request) = fallback_response request"
    by (auto simp: generate_ai_quiz_def split: prod.splits sum.splits)
  have c: "cl (build_prompt (spot_name request) (spot_description request) (difficulty request)) =
      Inl e \<longrightarrow>
      fst (generate_ai_quiz lim (Some cl) request) = fallback_response request"
    by (simp add: generate_ai_quiz_def generate_quiz_with_openai_def Let_def)
  have d: "success (fst (generate_ai_quiz lim openai_client request)) \<and>
      quiz (fst (generate_ai_quiz lim openai_client request)) \<noteq> None"
    by (auto simp: generate_ai_quiz_def fallback_response_def
        split: option.splits prod.splits sum.splits)
  have s: "length (snd (generate_quiz_with_openai lim c' n' d' f')) \<le> 1" for c' n' d' f'
    by (simp add: generate_quiz_with_openai_def Let_def
        split: sum.splits list.splits option.splits)
  have e: "length (snd (generate_ai_quiz lim openai_client request)) \<le> 1"
  proof (cases openai_client)
    case None
    then show ?thesis by (simp add: generate_ai_quiz_def)
  next
    case (Some c')
    with s [of c' "spot_name request" "spot_description request" "difficulty request"]
    show ?thesis
      by (auto simp: generate_ai_quiz_def split: prod.splits sum.splits)
  qed
  have f: "fallback_response request =
     \<lparr>success = True,
      quiz = Some (get_fallback_quiz (spot_name request) (PyStr (difficulty request))),
      generated_by = ascii ''fallback''\<rparr>"
    by (simp add: fallback_response_def)
  from a b c d e f show ?thesis by blast
qed

text \<open>A client whose call raises.\<close>

theorem generation_never_fails_witness:
  "fst (generate_quiz_with_openai 4300 (\<lambda>p. Inl ProviderError) name_tsurugaoka [] key_middle) =
     Inl ProviderError \<and>
   fst (generate_ai_quiz 4300 (Some (\<lambda>p. Inl ProviderError))
     \<lparr>spot_name = name_tsurugaoka, spot_description = [], difficulty = key_middle\<rparr>) =
     \<lparr>success = True,
      quiz = Some (get_fallback_quiz name_tsurugaoka (PyStr key_middle)),
      generated_by = ascii ''fallback''\<rparr>"
proof -
  have h: "fst (generate_quiz_with_openai 4300 (\<lambda>p. Inl ProviderError) name_tsurugaoka []
      key_middle) = Inl ProviderError"
    by (simp add: generate_quiz_with_openai_def Let_def)
  from generation_never_fails [of 4300
      "\<lparr>spot_name = name_tsurugaoka, spot_description = [], difficulty = key_middle\<rparr>"
      "\<lambda>p. Inl ProviderError" ProviderError] h
  show ?thesis by simp
qed

end
